theory Spec2Isabelle
  imports Complex_Main "HOL-Library.Sublist" "HOL-Library.Log_Nat"
begin

section \<open>Conventions of the embedding\<close>

text \<open>
  The theory embeds \<^verbatim>\<open>src/bot/orders.py\<close> (class \<^verbatim>\<open>OrderManager\<close>) and the price
  query of \<^verbatim>\<open>src/bot/client.py\<close>.

  \<^item> Python \<^verbatim>\<open>float\<close> quantities and prices are the real numbers, and the methods compute
    with exact arithmetic. Where a property of the grid's level prices depends on the
    rounding of the arithmetic, the level prices are computed again in IEEE double
    arithmetic (\<open>grid_level_prices_double\<close>). Python \<^verbatim>\<open>int\<close> is \<open>int\<close>; \<^verbatim>\<open>//\<close> on ints is
    floor division, which is \<open>div\<close> on \<open>int\<close>.
  \<^item> The exchange is an external collaborator. Its answer to the \<open>n\<close>-th call of
    \<^verbatim>\<open>futures_create_order\<close> with keyword arguments \<open>a\<close> is \<open>ex n a\<close>: a returned dict or
    a raised exception. The world records every call made, the wall clock and the
    background threads started.
  \<^item> A Python exception that leaves a method is a value of \<open>py_error\<close>. Object state that
    was mutated before the exception is kept, as it is in Python.
  \<^item> Logging is not modelled.
  \<^item> A method named \<^verbatim>\<open>_foo\<close> in the source is \<open>foo\<close> here.
\<close>

datatype py_error = KeyError | ZeroDivisionError | ValueError

subsection \<open>Python's \<^verbatim>\<open>str\<close> of an integer\<close>

definition digit_char :: "nat \<Rightarrow> char" where
  "digit_char d = ''0123456789'' ! d"

fun str_nat :: "nat \<Rightarrow> string" where
  "str_nat n = (if n < 10 then [digit_char n] else str_nat (n div 10) @ [digit_char (n mod 10)])"

declare str_nat.simps [simp del]

definition str_int :: "int \<Rightarrow> string" where
  "str_int i = (if i < 0 then CHR ''-'' # str_nat (nat (- i)) else str_nat (nat i))"

section \<open>Data model\<close>

text \<open>The dataclass \<^verbatim>\<open>OrderResult\<close>.\<close>

record order_result =
  order_id :: string
  symbol :: string
  side :: string
  order_type :: string
  quantity :: real
  price :: "real option"
  status :: string
  timestamp :: int
  error_message :: "string option"

text \<open>
  The keyword arguments of one \<^verbatim>\<open>futures_create_order\<close> call. An argument the call does
  not pass is \<open>None\<close>.
\<close>

record create_order_args =
  arg_symbol :: string
  arg_side :: string
  arg_type :: string
  arg_quantity :: real
  arg_price :: "real option"
  arg_stopPrice :: "real option"
  arg_timeInForce :: "string option"

text \<open>
  What one \<^verbatim>\<open>futures_create_order\<close> call does: \<open>Returns oid st\<close> is a returned dict whose
  \<^verbatim>\<open>'orderId'\<close> entry is the integer \<open>oid\<close> and whose \<^verbatim>\<open>'status'\<close> entry is \<open>st\<close> (\<open>None\<close>
  for a missing key); the other two are a raised \<^verbatim>\<open>BinanceOrderException\<close> and any other
  raised \<^verbatim>\<open>Exception\<close>, each with its \<^verbatim>\<open>str(e)\<close>.
\<close>

datatype create_order_outcome =
    Returns "int option" "string option"
  | Raises_BinanceOrderException string
  | Raises_Exception string

type_synonym exchange = "nat \<Rightarrow> create_order_args \<Rightarrow> create_order_outcome"

record world =
  submitted :: "create_order_args list"
  now :: int
  threads :: "string list"

text \<open>The enums of \<^verbatim>\<open>src/bot/config.py\<close>, by their values.\<close>

abbreviation OrderType_MARKET :: string where "OrderType_MARKET \<equiv> ''MARKET''"
abbreviation OrderType_LIMIT :: string where "OrderType_LIMIT \<equiv> ''LIMIT''"
abbreviation OrderSide_BUY :: string where "OrderSide_BUY \<equiv> ''BUY''"
abbreviation OrderSide_SELL :: string where "OrderSide_SELL \<equiv> ''SELL''"

text \<open>\<^verbatim>\<open>str(KeyError(k))\<close> is the key's \<^verbatim>\<open>repr\<close>: the key in single quotes.\<close>

definition str_KeyError :: "string \<Rightarrow> string" where
  "str_KeyError k = [CHR 0x27] @ k @ [CHR 0x27]"

section \<open>Primitive orders\<close>

definition market_args :: "string \<Rightarrow> string \<Rightarrow> real \<Rightarrow> create_order_args" where
  "market_args smb sd qty =
     \<lparr>arg_symbol = smb, arg_side = sd, arg_type = OrderType_MARKET, arg_quantity = qty,
      arg_price = None, arg_stopPrice = None, arg_timeInForce = None\<rparr>"

definition place_market_order ::
  "exchange \<Rightarrow> world \<Rightarrow> string \<Rightarrow> string \<Rightarrow> real \<Rightarrow> order_result \<times> world" where
  "place_market_order ex w smb sd qty =
     (let failed = (\<lambda>msg.
            \<lparr>order_id = '''', symbol = smb, side = sd, order_type = OrderType_MARKET,
             quantity = qty, price = None, status = ''FAILED'', timestamp = now w,
             error_message = Some msg\<rparr>);
          w' = w\<lparr>submitted := submitted w @ [market_args smb sd qty]\<rparr>
      in (case ex (length (submitted w)) (market_args smb sd qty) of
            Returns oid st \<Rightarrow>
              (case oid of
                 None \<Rightarrow> failed (str_KeyError ''orderId'')
               | Some i \<Rightarrow>
                   (case st of
                      None \<Rightarrow> failed (str_KeyError ''status'')
                    | Some s \<Rightarrow>
                        \<lparr>order_id = str_int i, symbol = smb, side = sd,
                         order_type = OrderType_MARKET, quantity = qty, price = None,
                         status = s, timestamp = now w, error_message = None\<rparr>))
          | Raises_BinanceOrderException msg \<Rightarrow> failed msg
          | Raises_Exception msg \<Rightarrow> failed msg,
          w'))"

definition limit_args :: "string \<Rightarrow> string \<Rightarrow> real \<Rightarrow> real \<Rightarrow> create_order_args" where
  "limit_args smb sd qty p =
     \<lparr>arg_symbol = smb, arg_side = sd, arg_type = OrderType_LIMIT, arg_quantity = qty,
      arg_price = Some p, arg_stopPrice = None, arg_timeInForce = Some ''GTC''\<rparr>"

definition place_limit_order ::
  "exchange \<Rightarrow> world \<Rightarrow> string \<Rightarrow> string \<Rightarrow> real \<Rightarrow> real \<Rightarrow> order_result \<times> world" where
  "place_limit_order ex w smb sd qty p =
     (let failed = (\<lambda>msg.
            \<lparr>order_id = '''', symbol = smb, side = sd, order_type = OrderType_LIMIT,
             quantity = qty, price = Some p, status = ''FAILED'', timestamp = now w,
             error_message = Some msg\<rparr>);
          w' = w\<lparr>submitted := submitted w @ [limit_args smb sd qty p]\<rparr>
      in (case ex (length (submitted w)) (limit_args smb sd qty p) of
            Returns oid st \<Rightarrow>
              (case oid of
                 None \<Rightarrow> failed (str_KeyError ''orderId'')
               | Some i \<Rightarrow>
                   (case st of
                      None \<Rightarrow> failed (str_KeyError ''status'')
                    | Some s \<Rightarrow>
                        \<lparr>order_id = str_int i, symbol = smb, side = sd,
                         order_type = OrderType_LIMIT, quantity = qty, price = Some p,
                         status = s, timestamp = now w, error_message = None\<rparr>))
          | Raises_BinanceOrderException msg \<Rightarrow> failed msg
          | Raises_Exception msg \<Rightarrow> failed msg,
          w'))"

section \<open>The order manager\<close>

text \<open>
  The three dicts of \<^verbatim>\<open>OrderManager\<close> and their entries. An entry of \<^verbatim>\<open>active_orders\<close> is
  the dict \<^verbatim>\<open>place_oco_order\<close> stores; entries of \<^verbatim>\<open>twap_orders\<close> and \<^verbatim>\<open>grid_orders\<close> are
  the dicts built by \<^verbatim>\<open>start_twap_order\<close> and \<^verbatim>\<open>start_grid_strategy\<close>. A key that two
  dicts share is prefixed with its dict's name.
\<close>

record oco_entry =
  oco_type :: string
  stop_price :: real
  stop_limit_price :: real
  oco_symbol :: string
  oco_side :: string
  oco_quantity :: real

record twap_order =
  twap_symbol :: string
  twap_side :: string
  total_quantity :: real
  remaining_quantity :: real
  duration_minutes :: int
  interval_seconds :: int
  start_time :: int
  orders :: "order_result list"
  twap_active :: bool

record grid_order =
  grid_symbol :: string
  lower_price :: real
  upper_price :: real
  grid_levels :: int
  quantity_per_level :: real
  buy_levels :: "real list"
  sell_levels :: "real list"
  grid_active_orders :: "order_result list"
  grid_active :: bool

record order_manager =
  active_orders :: "string \<rightharpoonup> oco_entry"
  twap_orders :: "string \<rightharpoonup> twap_order"
  grid_orders :: "string \<rightharpoonup> grid_order"

subsection \<open>OCO\<close>

text \<open>
  \<^verbatim>\<open>place_limit_order\<close> returns in every case, so the \<^verbatim>\<open>except\<close> branch of
  \<^verbatim>\<open>place_oco_order\<close> has nothing to catch and has no branch here.
\<close>

definition place_oco_order ::
  "exchange \<Rightarrow> order_manager \<Rightarrow> world \<Rightarrow> string \<Rightarrow> string \<Rightarrow> real \<Rightarrow> real \<Rightarrow> real \<Rightarrow> real
     \<Rightarrow> order_result \<times> order_manager \<times> world" where
  "place_oco_order ex m w smb sd qty p stop_p stop_limit_p =
     (let (limit_order, w') = place_limit_order ex w smb sd qty p;
          m' = (if status limit_order \<noteq> ''FAILED''
                then m\<lparr>active_orders := (active_orders m)(order_id limit_order \<mapsto>
                       \<lparr>oco_type = ''OCO'', stop_price = stop_p,
                        stop_limit_price = stop_limit_p, oco_symbol = smb, oco_side = sd,
                        oco_quantity = qty\<rparr>)\<rparr>
                else m)
      in (limit_order, m', w'))"

subsection \<open>TWAP\<close>

text \<open>
  \<^verbatim>\<open>start_twap_order\<close> builds the id from the symbol and \<^verbatim>\<open>int(time.time())\<close>, stores the
  entry and starts the daemon thread that will run \<^verbatim>\<open>_execute_twap(twap_id)\<close>. The thread
  started is recorded in the world by its argument.
\<close>

definition start_twap_order ::
  "order_manager \<Rightarrow> world \<Rightarrow> string \<Rightarrow> string \<Rightarrow> real \<Rightarrow> int \<Rightarrow> int
     \<Rightarrow> string \<times> order_manager \<times> world" where
  "start_twap_order m w smb sd total_q dur itv =
     (let twap_id = ''twap_'' @ smb @ ''_'' @ str_int (now w);
          m' = m\<lparr>twap_orders := (twap_orders m)(twap_id \<mapsto>
                 \<lparr>twap_symbol = smb, twap_side = sd, total_quantity = total_q,
                  remaining_quantity = total_q, duration_minutes = dur,
                  interval_seconds = itv, start_time = now w, orders = [],
                  twap_active = True\<rparr>)\<rparr>;
          w' = w\<lparr>threads := threads w @ [twap_id]\<rparr>
      in (twap_id, m', w'))"

text \<open>\<^verbatim>\<open>time.sleep\<close> raises \<^verbatim>\<open>ValueError\<close> on a negative length.\<close>

definition sleep :: "int \<Rightarrow> world \<Rightarrow> py_error + world" where
  "sleep secs w = (if secs < 0 then Inl ValueError else Inr (w\<lparr>now := now w + secs\<rparr>))"

text \<open>
  One pass through the body of the \<^verbatim>\<open>for\<close> loop of \<^verbatim>\<open>_execute_twap\<close>, and how it ends:
  it falls through to the next pass, breaks out of the loop, or raises.
\<close>

datatype flow = Continue | Break | Raise py_error

definition twap_iteration ::
  "exchange \<Rightarrow> real \<Rightarrow> twap_order \<times> world \<Rightarrow> flow \<times> twap_order \<times> world" where
  "twap_iteration ex quantity_per_interval tw =
     (let (t, w) = tw in
      if \<not> twap_active t then (Break, t, w)
      else if remaining_quantity t \<le> 0 then (Break, t, w)
      else
        let order_quantity = min quantity_per_interval (remaining_quantity t);
            (result, w1) = place_market_order ex w (twap_symbol t) (twap_side t) order_quantity;
            t1 = t\<lparr>orders := orders t @ [result],
                   remaining_quantity := remaining_quantity t - order_quantity\<rparr>
        in (case sleep (interval_seconds t1) w1 of
              Inl e \<Rightarrow> (Raise e, t1, w1)
            | Inr w2 \<Rightarrow> (Continue, t1, w2)))"

text \<open>
  The loop \<^verbatim>\<open>for i in range(total_intervals)\<close>: the body does not read \<^verbatim>\<open>i\<close>, so the loop
  is a count of passes left.
\<close>

fun twap_loop ::
  "exchange \<Rightarrow> real \<Rightarrow> nat \<Rightarrow> twap_order \<times> world \<Rightarrow> py_error option \<times> twap_order \<times> world" where
  "twap_loop ex q 0 tw = (None, tw)"
| "twap_loop ex q (Suc n) tw =
     (case twap_iteration ex q tw of
        (Continue, tw') \<Rightarrow> twap_loop ex q n tw'
      | (Break, tw') \<Rightarrow> (None, tw')
      | (Raise e, tw') \<Rightarrow> (Some e, tw'))"

text \<open>
  \<^verbatim>\<open>_execute_twap\<close>, the body of the background thread. Both divisions raise
  \<^verbatim>\<open>ZeroDivisionError\<close> on a zero divisor, before the loop and before the final
  \<^verbatim>\<open>active = False\<close>; \<^verbatim>\<open>range\<close> of a negative count is empty.
\<close>

definition execute_twap ::
  "exchange \<Rightarrow> string \<Rightarrow> order_manager \<Rightarrow> world \<Rightarrow> py_error option \<times> order_manager \<times> world" where
  "execute_twap ex twap_id m w =
     (case twap_orders m twap_id of
        None \<Rightarrow> (Some KeyError, m, w)
      | Some t \<Rightarrow>
          if interval_seconds t = 0 then (Some ZeroDivisionError, m, w)
          else
            let total_intervals = (duration_minutes t * 60) div interval_seconds t in
            if total_intervals = 0 then (Some ZeroDivisionError, m, w)
            else
              let quantity_per_interval = total_quantity t / real_of_int total_intervals;
                  (e, t', w') = twap_loop ex quantity_per_interval (nat total_intervals) (t, w)
              in (case e of
                    Some err \<Rightarrow> (Some err, m\<lparr>twap_orders := (twap_orders m)(twap_id \<mapsto> t')\<rparr>, w')
                  | None \<Rightarrow>
                      (None,
                       m\<lparr>twap_orders := (twap_orders m)(twap_id \<mapsto> t'\<lparr>twap_active := False\<rparr>)\<rparr>,
                       w')))"

subsection \<open>Grid\<close>

text \<open>
  \<^verbatim>\<open>BinanceClient.get_current_price\<close>: the ticker call returns a price that \<^verbatim>\<open>float\<close>
  reads, or something inside the \<^verbatim>\<open>try\<close> raises and the method returns \<^verbatim>\<open>0.0\<close>.
\<close>

datatype ticker_outcome = Ticker_Price real | Ticker_Raises string

type_synonym ticker = "string \<Rightarrow> ticker_outcome"

definition get_current_price :: "ticker \<Rightarrow> string \<Rightarrow> real" where
  "get_current_price tk smb = (case tk smb of Ticker_Price p \<Rightarrow> p | Ticker_Raises e \<Rightarrow> 0)"

text \<open>
  The classification loop of \<^verbatim>\<open>start_grid_strategy\<close> over the indices still to visit,
  with the two lists built so far.
\<close>

fun classify_levels ::
  "real \<Rightarrow> real \<Rightarrow> real \<Rightarrow> nat list \<Rightarrow> real list \<times> real list \<Rightarrow> real list \<times> real list" where
  "classify_levels lower price_step current_price [] bs = bs"
| "classify_levels lower price_step current_price (i # is) bs =
     (let (buy_levels, sell_levels) = bs;
          level_price = lower + (real i * price_step)
      in if level_price < current_price
         then classify_levels lower price_step current_price is (buy_levels @ [level_price], sell_levels)
         else classify_levels lower price_step current_price is (buy_levels, sell_levels @ [level_price]))"

text \<open>
  One \<^verbatim>\<open>for price in ...\<close> loop of \<^verbatim>\<open>_place_grid_orders\<close>, with the strategy's
  \<^verbatim>\<open>active_orders\<close> list as built so far.
\<close>

fun place_levels ::
  "exchange \<Rightarrow> string \<Rightarrow> string \<Rightarrow> real \<Rightarrow> real list \<Rightarrow> order_result list \<times> world
     \<Rightarrow> order_result list \<times> world" where
  "place_levels ex smb sd qty [] aw = aw"
| "place_levels ex smb sd qty (p # ps) aw =
     (let (acts, w) = aw;
          (result, w') = place_limit_order ex w smb sd qty p
      in place_levels ex smb sd qty ps
           (if status result \<noteq> ''FAILED'' then acts @ [result] else acts, w'))"

definition place_grid_orders ::
  "exchange \<Rightarrow> string \<Rightarrow> order_manager \<Rightarrow> world \<Rightarrow> py_error + order_manager \<times> world" where
  "place_grid_orders ex grid_id m w =
     (case grid_orders m grid_id of
        None \<Rightarrow> Inl KeyError
      | Some g \<Rightarrow>
          let (a1, w1) = place_levels ex (grid_symbol g) OrderSide_BUY (quantity_per_level g)
                           (buy_levels g) (grid_active_orders g, w);
              (a2, w2) = place_levels ex (grid_symbol g) OrderSide_SELL (quantity_per_level g)
                           (sell_levels g) (a1, w1)
          in Inr (m\<lparr>grid_orders := (grid_orders m)(grid_id \<mapsto> g\<lparr>grid_active_orders := a2\<rparr>)\<rparr>, w2))"

text \<open>
  \<^verbatim>\<open>start_grid_strategy\<close>. The division by \<^verbatim>\<open>grid_levels - 1\<close> raises
  \<^verbatim>\<open>ZeroDivisionError\<close> for one level, before anything is stored.
\<close>

definition start_grid_strategy ::
  "exchange \<Rightarrow> ticker \<Rightarrow> order_manager \<Rightarrow> world \<Rightarrow> string \<Rightarrow> real \<Rightarrow> real \<Rightarrow> int \<Rightarrow> real
     \<Rightarrow> py_error + string \<times> order_manager \<times> world" where
  "start_grid_strategy ex tk m w smb lower upper levels qty =
     (let grid_id = ''grid_'' @ smb @ ''_'' @ str_int (now w) in
      if levels - 1 = 0 then Inl ZeroDivisionError
      else
        let price_step = (upper - lower) / real_of_int (levels - 1);
            current_price = get_current_price tk smb;
            (buys, sells) =
              classify_levels lower price_step current_price [0..<nat levels] ([], []);
            m1 = m\<lparr>grid_orders := (grid_orders m)(grid_id \<mapsto>
                   \<lparr>grid_symbol = smb, lower_price = lower, upper_price = upper,
                    grid_levels = levels, quantity_per_level = qty, buy_levels = buys,
                    sell_levels = sells, grid_active_orders = [], grid_active = True\<rparr>)\<rparr>
        in (case place_grid_orders ex grid_id m1 w of
              Inl e \<Rightarrow> Inl e
            | Inr (m2, w2) \<Rightarrow> Inr (grid_id, m2, w2)))"

subsection \<open>Grid level prices in double precision\<close>

text \<open>
  Rounding to the nearest integer, a tie going to the even one.
\<close>

definition round_half_even :: "real \<Rightarrow> int" where
  "round_half_even x =
     (let f = \<lfloor>x\<rfloor> in
      if x - of_int f < 1/2 then f
      else if 1/2 < x - of_int f then f + 1
      else if even f then f else f + 1)"

text \<open>
  A double is an integer multiple of its quantum. For a real scaled by \<open>2 ^ 1074\<close> the
  quantum is \<open>2 ^ quantum_exp\<close>: 1 for the subnormal numbers and the first binade of the
  normal ones (the scaled value is below \<open>2 ^ 53\<close>), and otherwise the power of two that
  leaves 53 significant bits.
\<close>

definition quantum_exp :: "real \<Rightarrow> nat" where
  "quantum_exp X = nat (bitlen \<lfloor>X\<rfloor> - 53)"

definition round_scaled :: "real \<Rightarrow> real" where
  "round_scaled X = of_int (round_half_even (X / 2 ^ quantum_exp X)) * 2 ^ quantum_exp X"

text \<open>
  \<open>fl x\<close> is the double nearest to \<open>x\<close>, ties to even: what an IEEE binary64 operation
  returns for the exact result \<open>x\<close>. Overflow to infinity is not modelled.
\<close>

definition fl :: "real \<Rightarrow> real" where
  "fl x = sgn x * round_scaled (\<bar>x\<bar> * 2 ^ 1074) / 2 ^ 1074"

text \<open>
  Lines 266 and 273 of \<^verbatim>\<open>start_grid_strategy\<close> as Python evaluates them on floats:
  \<^verbatim>\<open>price_step = (upper_price - lower_price) / (grid_levels - 1)\<close> and
  \<^verbatim>\<open>level_price = lower_price + (i * price_step)\<close>, every operation rounded to a double
  and every \<^verbatim>\<open>int\<close> operand converted to a double first. The list is what the loop over
  \<^verbatim>\<open>range(grid_levels)\<close> generates.
\<close>

definition price_step_double :: "real \<Rightarrow> real \<Rightarrow> int \<Rightarrow> real" where
  "price_step_double lower upper levels =
     fl (fl (upper - lower) / fl (real_of_int (levels - 1)))"

definition level_price_double :: "real \<Rightarrow> real \<Rightarrow> nat \<Rightarrow> real" where
  "level_price_double lower price_step i = fl (lower + fl (fl (real i) * price_step))"

definition grid_level_prices_double :: "real \<Rightarrow> real \<Rightarrow> int \<Rightarrow> real list" where
  "grid_level_prices_double lower upper levels =
     map (level_price_double lower (price_step_double lower upper levels)) [0..<nat levels]"

section \<open>Notions the properties are stated with\<close>




text \<open>
  The grid levels in the specification's words: the \<open>levels\<close> evenly spaced points
  \<open>lower + i * (upper - lower) / (levels - 1)\<close> for \<open>i = 0, \<dots>, levels - 1\<close>.
\<close>

definition grid_level_prices :: "real \<Rightarrow> real \<Rightarrow> int \<Rightarrow> real list" where
  "grid_level_prices lower upper levels =
     map (\<lambda>i. lower + real i * ((upper - lower) / real_of_int (levels - 1))) [0..<nat levels]"

text \<open>
  The result of every limit-order placement for a list of (side, price) levels, placed
  one after the other from world \<open>w\<close>: failed ones included.
\<close>

fun grid_results ::
  "exchange \<Rightarrow> world \<Rightarrow> string \<Rightarrow> real \<Rightarrow> (string \<times> real) list \<Rightarrow> order_result list" where
  "grid_results ex w smb qty [] = []"
| "grid_results ex w smb qty (l # ls) =
     fst (place_limit_order ex w smb (fst l) qty (snd l)) #
     grid_results ex (snd (place_limit_order ex w smb (fst l) qty (snd l))) smb qty ls"

section \<open>Concrete inputs\<close>

text \<open>A world in which nothing has happened yet, and a freshly constructed manager.\<close>

definition w0 :: world where
  "w0 = \<lparr>submitted = [], now = 1700000000, threads = []\<rparr>"

definition m0 :: order_manager where
  "m0 = \<lparr>active_orders = Map.empty, twap_orders = Map.empty, grid_orders = Map.empty\<rparr>"




text \<open>A price feed that answers 2000 for every symbol, and one whose query fails.\<close>

definition ticker_2000 :: ticker where
  "ticker_2000 = (\<lambda>smb. Ticker_Price 2000)"

definition ticker_down :: ticker where
  "ticker_down = (\<lambda>smb. Ticker_Raises ''Read timed out.'')"

text \<open>An exchange that accepts every order.\<close>

definition exchange_accepting :: exchange where
  "exchange_accepting = (\<lambda>n a. Returns (Some (1000 + int n)) (Some ''NEW''))"

text \<open>An exchange that rejects the first order it gets and accepts every later one.\<close>

definition exchange_rejecting_first :: exchange where
  "exchange_rejecting_first =
     (\<lambda>n a. if n = 0 then Raises_BinanceOrderException ''Margin is insufficient.''
            else Returns (Some (1000 + int n)) (Some ''NEW''))"

section \<open>Properties of the primitive orders\<close>

lemma str_nat_not_Nil: "str_nat n \<noteq> []"
  by (subst str_nat.simps) simp

lemma str_int_not_Nil: "str_int i \<noteq> []"
  by (simp add: str_int_def str_nat_not_Nil)

lemma submitted_place_limit_order:
  "submitted (snd (place_limit_order ex w smb sd qty p)) = submitted w @ [limit_args smb sd qty p]"
  by (simp add: place_limit_order_def Let_def)

text \<open>
  Claim C7. \<^verbatim>\<open>place_market_order\<close> and \<^verbatim>\<open>place_limit_order\<close> return an \<^verbatim>\<open>OrderResult\<close>
  whatever the exchange call does. When the call raises (a \<^verbatim>\<open>BinanceOrderException\<close> or
  any other \<^verbatim>\<open>Exception\<close>), or the returned dict lacks a key, the result has status
  \<^verbatim>\<open>FAILED\<close>, an empty \<open>order_id\<close> and \<open>error_message\<close> set; when the call returns both
  keys, \<open>order_id\<close> is the decimal text of the exchange's id, which is not empty, and
  \<open>error_message\<close> is absent. So \<open>error_message\<close> is set exactly when \<open>order_id\<close> is empty.
\<close>

theorem place_orders_capture_failures:
  "(case place_market_order ex w smb sd qty of (r, w') \<Rightarrow>
      (error_message r \<noteq> None) = (order_id r = '''') \<and>
      (case ex (length (submitted w)) (market_args smb sd qty) of
         Returns (Some i) (Some s) \<Rightarrow>
           order_id r = str_int i \<and> order_id r \<noteq> '''' \<and> error_message r = None \<and> status r = s
       | Returns (Some i) None \<Rightarrow>
           status r = ''FAILED'' \<and> order_id r = '''' \<and> error_message r = Some (str_KeyError ''status'')
       | Returns None st \<Rightarrow>
           status r = ''FAILED'' \<and> order_id r = '''' \<and> error_message r = Some (str_KeyError ''orderId'')
       | Raises_BinanceOrderException msg \<Rightarrow>
           status r = ''FAILED'' \<and> order_id r = '''' \<and> error_message r = Some msg
       | Raises_Exception msg \<Rightarrow>
           status r = ''FAILED'' \<and> order_id r = '''' \<and> error_message r = Some msg)) \<and>
   (case place_limit_order ex w smb sd qty p of (r, w') \<Rightarrow>
      (error_message r \<noteq> None) = (order_id r = '''') \<and>
      (case ex (length (submitted w)) (limit_args smb sd qty p) of
         Returns (Some i) (Some s) \<Rightarrow>
           order_id r = str_int i \<and> order_id r \<noteq> '''' \<and> error_message r = None \<and> status r = s
       | Returns (Some i) None \<Rightarrow>
           status r = ''FAILED'' \<and> order_id r = '''' \<and> error_message r = Some (str_KeyError ''status'')
       | Returns None st \<Rightarrow>
           status r = ''FAILED'' \<and> order_id r = '''' \<and> error_message r = Some (str_KeyError ''orderId'')
       | Raises_BinanceOrderException msg \<Rightarrow>
           status r = ''FAILED'' \<and> order_id r = '''' \<and> error_message r = Some msg
       | Raises_Exception msg \<Rightarrow>
           status r = ''FAILED'' \<and> order_id r = '''' \<and> error_message r = Some msg))"
  by (simp add: place_market_order_def place_limit_order_def Let_def str_int_not_Nil
      split: create_order_outcome.split option.split)

theorem place_orders_capture_failures_witness:
  "order_id (fst (place_market_order (\<lambda>n a. Raises_BinanceOrderException ''Margin is insufficient.'')
      w0 ''BTCUSDT'' ''BUY'' 1)) = '''' \<and>
   status (fst (place_market_order (\<lambda>n a. Raises_BinanceOrderException ''Margin is insufficient.'')
      w0 ''BTCUSDT'' ''BUY'' 1)) = ''FAILED'' \<and>
   error_message (fst (place_market_order (\<lambda>n a. Raises_BinanceOrderException ''Margin is insufficient.'')
      w0 ''BTCUSDT'' ''BUY'' 1)) = Some ''Margin is insufficient.'' \<and>
   order_id (fst (place_limit_order (\<lambda>n a. Returns (Some 4242) (Some ''NEW''))
      w0 ''BTCUSDT'' ''BUY'' 1 30000)) = ''4242'' \<and>
   error_message (fst (place_limit_order (\<lambda>n a. Returns (Some 4242) (Some ''NEW''))
      w0 ''BTCUSDT'' ''BUY'' 1 30000)) = None"
proof -
  have s: "str_int 4242 = ''4242''"
    by (simp add: str_int_def str_nat.simps digit_char_def)
  show ?thesis
    using place_orders_capture_failures
      [of "\<lambda>n a. Raises_BinanceOrderException ''Margin is insufficient.''" w0 "''BTCUSDT''" "''BUY''" 1 30000]
      place_orders_capture_failures
      [of "\<lambda>n a. Returns (Some 4242) (Some ''NEW'')" w0 "''BTCUSDT''" "''BUY''" 1 30000]
    by (simp add: s split: prod.splits)
qed

lemma str_int_clock: "str_int 1700000000 = ''1700000000''"
  by (simp add: str_int_def str_nat.simps digit_char_def)

section \<open>OCO orders\<close>

text \<open>
  Claim C9. \<^verbatim>\<open>place_oco_order\<close> makes exactly one exchange call, the \<^verbatim>\<open>LIMIT\<close> call of
  \<^verbatim>\<open>place_limit_order\<close>, which carries no stop price. The stop leg is only stored, under
  the limit order's id, and only when the limit result's status is not \<^verbatim>\<open>FAILED\<close>; the
  other dicts of the manager are untouched. The result returned is the limit leg's.
\<close>

theorem place_oco_order_submits_limit_leg_only:
  "(case place_oco_order ex m w smb sd qty p stop_p stop_limit_p of (r, m', w') \<Rightarrow>
      (r, w') = place_limit_order ex w smb sd qty p \<and>
      submitted w' = submitted w @ [limit_args smb sd qty p] \<and>
      arg_type (limit_args smb sd qty p) = OrderType_LIMIT \<and>
      arg_price (limit_args smb sd qty p) = Some p \<and>
      arg_stopPrice (limit_args smb sd qty p) = None \<and>
      active_orders m' =
        (if status r \<noteq> ''FAILED''
         then (active_orders m)(order_id r \<mapsto>
                \<lparr>oco_type = ''OCO'', stop_price = stop_p, stop_limit_price = stop_limit_p,
                 oco_symbol = smb, oco_side = sd, oco_quantity = qty\<rparr>)
         else active_orders m) \<and>
      twap_orders m' = twap_orders m \<and> grid_orders m' = grid_orders m)"
  by (simp add: place_oco_order_def Let_def limit_args_def split: prod.splits)
    (metis snd_conv submitted_place_limit_order limit_args_def)

theorem place_oco_order_submits_limit_leg_only_witness:
  "submitted (snd (snd (place_oco_order (\<lambda>n a. Returns (Some 77) (Some ''NEW'')) m0 w0
       ''BTCUSDT'' ''SELL'' 1 31000 29000 28900))) = [limit_args ''BTCUSDT'' ''SELL'' 1 31000] \<and>
   order_id (fst (place_oco_order (\<lambda>n a. Returns (Some 77) (Some ''NEW'')) m0 w0
       ''BTCUSDT'' ''SELL'' 1 31000 29000 28900)) = ''77'' \<and>
   active_orders (fst (snd (place_oco_order (\<lambda>n a. Returns (Some 77) (Some ''NEW'')) m0 w0
       ''BTCUSDT'' ''SELL'' 1 31000 29000 28900))) ''77'' =
     Some \<lparr>oco_type = ''OCO'', stop_price = 29000, stop_limit_price = 28900,
           oco_symbol = ''BTCUSDT'', oco_side = ''SELL'', oco_quantity = 1\<rparr> \<and>
   submitted (snd (snd (place_oco_order (\<lambda>n a. Raises_Exception ''timeout'') m0 w0
       ''BTCUSDT'' ''SELL'' 1 31000 29000 28900))) = [limit_args ''BTCUSDT'' ''SELL'' 1 31000] \<and>
   active_orders (fst (snd (place_oco_order (\<lambda>n a. Raises_Exception ''timeout'') m0 w0
       ''BTCUSDT'' ''SELL'' 1 31000 29000 28900))) = Map.empty"
proof -
  have s: "str_int 77 = ''77''"
    by (simp add: str_int_def str_nat.simps digit_char_def)
  have w: "submitted w0 = []"
    by (simp add: w0_def)
  have m: "active_orders m0 = Map.empty"
    by (simp add: m0_def)
  have a: "place_limit_order (\<lambda>n a. Returns (Some 77) (Some ''NEW'')) w0 ''BTCUSDT'' ''SELL'' 1 31000 =
     (\<lparr>order_id = ''77'', symbol = ''BTCUSDT'', side = ''SELL'', order_type = ''LIMIT'',
       quantity = 1, price = Some 31000, status = ''NEW'', timestamp = now w0, error_message = None\<rparr>,
      w0\<lparr>submitted := submitted w0 @ [limit_args ''BTCUSDT'' ''SELL'' 1 31000]\<rparr>)"
    by (simp add: place_limit_order_def s)
  have b: "place_limit_order (\<lambda>n a. Raises_Exception ''timeout'') w0 ''BTCUSDT'' ''SELL'' 1 31000 =
     (\<lparr>order_id = '''', symbol = ''BTCUSDT'', side = ''SELL'', order_type = ''LIMIT'',
       quantity = 1, price = Some 31000, status = ''FAILED'', timestamp = now w0,
       error_message = Some ''timeout''\<rparr>,
      w0\<lparr>submitted := submitted w0 @ [limit_args ''BTCUSDT'' ''SELL'' 1 31000]\<rparr>)"
    by (simp add: place_limit_order_def)
  show ?thesis
    using place_oco_order_submits_limit_leg_only
      [where ex = "\<lambda>n a. Returns (Some 77) (Some ''NEW'')" and m = m0 and w = w0
         and smb = "''BTCUSDT''" and sd = "''SELL''" and qty = 1 and p = 31000
         and stop_p = 29000 and stop_limit_p = 28900]
      place_oco_order_submits_limit_leg_only
      [where ex = "\<lambda>n a. Raises_Exception ''timeout''" and m = m0 and w = w0
         and smb = "''BTCUSDT''" and sd = "''SELL''" and qty = 1 and p = 31000
         and stop_p = 29000 and stop_limit_p = 28900]
    by (simp add: a b w m split: prod.splits)
qed

section \<open>Starting a TWAP order\<close>

text \<open>
  Claim C2, as stated, fails: \<^verbatim>\<open>start_twap_order\<close> has no validation. Called with total
  quantity, duration and interval all zero it returns an id, stores the strategy and
  starts the background thread.
\<close>

theorem start_twap_order_accepts_nonpositive:
  "fst (start_twap_order m0 w0 ''BTCUSDT'' ''BUY'' 0 0 0) = ''twap_BTCUSDT_1700000000'' \<and>
   twap_orders (fst (snd (start_twap_order m0 w0 ''BTCUSDT'' ''BUY'' 0 0 0))) ''twap_BTCUSDT_1700000000''
     = Some \<lparr>twap_symbol = ''BTCUSDT'', twap_side = ''BUY'', total_quantity = 0,
              remaining_quantity = 0, duration_minutes = 0, interval_seconds = 0,
              start_time = 1700000000, orders = [], twap_active = True\<rparr> \<and>
   threads (snd (snd (start_twap_order m0 w0 ''BTCUSDT'' ''BUY'' 0 0 0))) = [''twap_BTCUSDT_1700000000'']"
  by (simp add: start_twap_order_def Let_def w0_def m0_def str_int_clock)

text \<open>
  Claim C2, amended. For all parameter values, zero and negative ones included,
  \<^verbatim>\<open>start_twap_order\<close> returns the id \<^verbatim>\<open>twap_<symbol>_<seconds>\<close>, stores under it a strategy
  with the remaining quantity equal to the total, no orders and \<^verbatim>\<open>active\<close> set, and starts
  one background thread for it. The call itself makes no exchange call and changes no
  other dict.
\<close>

theorem start_twap_order_always_registers:
  "(case start_twap_order m w smb sd total_q dur itv of (twap_id, m', w') \<Rightarrow>
      twap_id = ''twap_'' @ smb @ ''_'' @ str_int (now w) \<and>
      twap_orders m' = (twap_orders m)(twap_id \<mapsto>
          \<lparr>twap_symbol = smb, twap_side = sd, total_quantity = total_q,
           remaining_quantity = total_q, duration_minutes = dur, interval_seconds = itv,
           start_time = now w, orders = [], twap_active = True\<rparr>) \<and>
      active_orders m' = active_orders m \<and> grid_orders m' = grid_orders m \<and>
      threads w' = threads w @ [twap_id] \<and>
      submitted w' = submitted w \<and> now w' = now w)"
  by (simp add: start_twap_order_def Let_def)

theorem start_twap_order_always_registers_witness:
  "fst (start_twap_order m0 w0 ''BTCUSDT'' ''BUY'' 1 5 60) = ''twap_BTCUSDT_1700000000'' \<and>
   twap_orders (fst (snd (start_twap_order m0 w0 ''BTCUSDT'' ''BUY'' 1 5 60))) ''twap_BTCUSDT_1700000000''
     = Some \<lparr>twap_symbol = ''BTCUSDT'', twap_side = ''BUY'', total_quantity = 1,
              remaining_quantity = 1, duration_minutes = 5, interval_seconds = 60,
              start_time = 1700000000, orders = [], twap_active = True\<rparr> \<and>
   threads (snd (snd (start_twap_order m0 w0 ''BTCUSDT'' ''BUY'' 1 5 60))) = [''twap_BTCUSDT_1700000000''] \<and>
   submitted (snd (snd (start_twap_order m0 w0 ''BTCUSDT'' ''BUY'' 1 5 60))) = []"
  using start_twap_order_always_registers
    [where m = m0 and w = w0 and smb = "''BTCUSDT''" and sd = "''BUY''" and total_q = 1
       and dur = 5 and itv = 60]
  by (simp add: w0_def str_int_clock split: prod.splits)

section \<open>A TWAP order with no slice\<close>

lemma execute_twap_zero_slices:
  "twap_orders m twap_id = Some t \<Longrightarrow> interval_seconds t \<noteq> 0 \<Longrightarrow>
   (duration_minutes t * 60) div interval_seconds t = 0 \<Longrightarrow>
   execute_twap ex twap_id m w = (Some ZeroDivisionError, m, w)"
  by (simp add: execute_twap_def)

text \<open>
  Claim C1 at \<^verbatim>\<open>start_twap_order("BTCUSDT", "BUY", 1.0, 1, 120)\<close>: the slice count is
  \<open>60 div 120 = 0\<close>, and \<^verbatim>\<open>_execute_twap\<close> raises \<^verbatim>\<open>ZeroDivisionError\<close> on
  \<^verbatim>\<open>total_quantity / total_intervals\<close>. The thread ends there: no order is appended, and
  the strategy is left as registered, with \<^verbatim>\<open>active\<close> still true.
\<close>

theorem execute_twap_zero_slices_raises:
  "execute_twap ex ''twap_BTCUSDT_1700000000''
      (fst (snd (start_twap_order m0 w0 ''BTCUSDT'' ''BUY'' 1 1 120)))
      (snd (snd (start_twap_order m0 w0 ''BTCUSDT'' ''BUY'' 1 1 120)))
    = (Some ZeroDivisionError,
       fst (snd (start_twap_order m0 w0 ''BTCUSDT'' ''BUY'' 1 1 120)),
       snd (snd (start_twap_order m0 w0 ''BTCUSDT'' ''BUY'' 1 1 120))) \<and>
   fst (start_twap_order m0 w0 ''BTCUSDT'' ''BUY'' 1 1 120) = ''twap_BTCUSDT_1700000000'' \<and>
   map_option twap_active
     (twap_orders (fst (snd (start_twap_order m0 w0 ''BTCUSDT'' ''BUY'' 1 1 120)))
        ''twap_BTCUSDT_1700000000'') = Some True \<and>
   map_option orders
     (twap_orders (fst (snd (start_twap_order m0 w0 ''BTCUSDT'' ''BUY'' 1 1 120)))
        ''twap_BTCUSDT_1700000000'') = Some []"
  by (simp add: start_twap_order_def execute_twap_def Let_def w0_def m0_def str_int_clock)

section \<open>The TWAP run\<close>











section \<open>The TWAP slice schedule\<close>













section \<open>The grid\<close>

lemma classify_levels_filter:
  "classify_levels lower price_step current_price is (bl, sl) =
     (bl @ filter (\<lambda>p. p < current_price) (map (\<lambda>i. lower + real i * price_step) is),
      sl @ filter (\<lambda>p. current_price \<le> p) (map (\<lambda>i. lower + real i * price_step) is))"
  by (induction "is" arbitrary: bl sl) (simp_all add: Let_def not_less)

lemma snd_place_limit_order:
  "snd (place_limit_order ex w smb sd qty p) =
     w\<lparr>submitted := submitted w @ [limit_args smb sd qty p]\<rparr>"
  by (simp add: place_limit_order_def Let_def)

lemma place_levels_results:
  "place_levels ex smb sd qty ps (acts, w) =
     (acts @ filter (\<lambda>r. status r \<noteq> ''FAILED'') (grid_results ex w smb qty (map (Pair sd) ps)),
      w\<lparr>submitted := submitted w @ map (limit_args smb sd qty) ps\<rparr>)"
proof (induction ps arbitrary: acts w)
  case Nil
  show ?case by simp
next
  case (Cons p ps)
  obtain r w1 where r: "place_limit_order ex w smb sd qty p = (r, w1)"
    by (metis surj_pair)
  have w1: "w1 = w\<lparr>submitted := submitted w @ [limit_args smb sd qty p]\<rparr>"
    using snd_place_limit_order [where ex = ex and w = w and smb = smb and sd = sd
        and qty = qty and p = p] r by simp
  show ?case
    by (simp add: r Cons.IH) (simp add: w1)
qed

lemma grid_results_append:
  "grid_results ex w smb qty (ls @ ls') =
     grid_results ex w smb qty ls @
     grid_results ex (w\<lparr>submitted := submitted w @ map (\<lambda>l. limit_args smb (fst l) qty (snd l)) ls\<rparr>)
       smb qty ls'"
  by (induction ls arbitrary: w) (simp_all add: snd_place_limit_order)

lemma length_grid_results: "length (grid_results ex w smb qty ls) = length ls"
  by (induction ls arbitrary: w) simp_all

lemma place_grid_orders_results:
  assumes "grid_orders m grid_id = Some g"
  shows "place_grid_orders ex grid_id m w =
     Inr (m\<lparr>grid_orders := (grid_orders m)(grid_id \<mapsto>
             g\<lparr>grid_active_orders := grid_active_orders g @
                 filter (\<lambda>r. status r \<noteq> ''FAILED'')
                   (grid_results ex w (grid_symbol g) (quantity_per_level g)
                      (map (Pair OrderSide_BUY) (buy_levels g) @
                       map (Pair OrderSide_SELL) (sell_levels g)))\<rparr>)\<rparr>,
          w\<lparr>submitted := submitted w @
              map (\<lambda>l. limit_args (grid_symbol g) (fst l) (quantity_per_level g) (snd l))
                (map (Pair OrderSide_BUY) (buy_levels g) @
                 map (Pair OrderSide_SELL) (sell_levels g))\<rparr>)"
  using assms
  by (simp add: place_grid_orders_def place_levels_results grid_results_append comp_def)


lemma start_grid_strategy_one_level:
  "start_grid_strategy ex tk m w smb lower upper 1 qty = Inl ZeroDivisionError"
  by (simp add: start_grid_strategy_def)

lemma start_grid_strategy_result:
  assumes "levels \<noteq> 1"
  shows "start_grid_strategy ex tk m w smb lower upper levels qty =
    (let bl = filter (\<lambda>p. p < get_current_price tk smb) (grid_level_prices lower upper levels);
         sl = filter (\<lambda>p. get_current_price tk smb \<le> p) (grid_level_prices lower upper levels);
         placed = map (Pair OrderSide_BUY) bl @ map (Pair OrderSide_SELL) sl
     in Inr (''grid_'' @ smb @ ''_'' @ str_int (now w),
             m\<lparr>grid_orders := (grid_orders m)(''grid_'' @ smb @ ''_'' @ str_int (now w) \<mapsto>
                 \<lparr>grid_symbol = smb, lower_price = lower, upper_price = upper,
                  grid_levels = levels, quantity_per_level = qty, buy_levels = bl,
                  sell_levels = sl,
                  grid_active_orders =
                    filter (\<lambda>r. status r \<noteq> ''FAILED'') (grid_results ex w smb qty placed),
                  grid_active = True\<rparr>)\<rparr>,
             w\<lparr>submitted := submitted w @
                 map (\<lambda>l. limit_args smb (fst l) qty (snd l)) placed\<rparr>))"
proof -
  define gid where "gid = ''grid_'' @ smb @ ''_'' @ str_int (now w)"
  define bl where
    "bl = filter (\<lambda>p. p < get_current_price tk smb) (grid_level_prices lower upper levels)"
  define sl where
    "sl = filter (\<lambda>p. get_current_price tk smb \<le> p) (grid_level_prices lower upper levels)"
  define g0 where "g0 =
     \<lparr>grid_symbol = smb, lower_price = lower, upper_price = upper,
      grid_levels = levels, quantity_per_level = qty, buy_levels = bl,
      sell_levels = sl, grid_active_orders = [], grid_active = True\<rparr>"
  define m1 where "m1 = m\<lparr>grid_orders := (grid_orders m)(gid \<mapsto> g0)\<rparr>"
  have cl: "classify_levels lower ((upper - lower) / real_of_int (levels - 1))
      (get_current_price tk smb) [0..<nat levels] ([], []) = (bl, sl)"
    by (simp add: classify_levels_filter bl_def sl_def grid_level_prices_def)
  have reg: "grid_orders m1 gid = Some g0"
    by (simp add: m1_def)
  have pl: "place_grid_orders ex gid m1 w =
     Inr (m1\<lparr>grid_orders := (grid_orders m1)(gid \<mapsto>
             g0\<lparr>grid_active_orders := grid_active_orders g0 @
                 filter (\<lambda>r. status r \<noteq> ''FAILED'')
                   (grid_results ex w (grid_symbol g0) (quantity_per_level g0)
                      (map (Pair OrderSide_BUY) (buy_levels g0) @
                       map (Pair OrderSide_SELL) (sell_levels g0)))\<rparr>)\<rparr>,
          w\<lparr>submitted := submitted w @
              map (\<lambda>l. limit_args (grid_symbol g0) (fst l) (quantity_per_level g0) (snd l))
                (map (Pair OrderSide_BUY) (buy_levels g0) @
                 map (Pair OrderSide_SELL) (sell_levels g0))\<rparr>)"
    by (rule place_grid_orders_results [OF reg])
  have "start_grid_strategy ex tk m w smb lower upper levels qty =
      (case place_grid_orders ex gid m1 w of
         Inl e \<Rightarrow> Inl e
       | Inr (m2, w2) \<Rightarrow> Inr (gid, m2, w2))"
    unfolding start_grid_strategy_def Let_def gid_def [symmetric] cl prod.case
      g0_def [symmetric] m1_def [symmetric]
    using assms by simp
  also have "\<dots> = Inr (gid,
      m\<lparr>grid_orders := (grid_orders m)(gid \<mapsto>
         g0\<lparr>grid_active_orders := filter (\<lambda>r. status r \<noteq> ''FAILED'')
              (grid_results ex w smb qty
                 (map (Pair OrderSide_BUY) bl @ map (Pair OrderSide_SELL) sl))\<rparr>)\<rparr>,
      w\<lparr>submitted := submitted w @
          map (\<lambda>l. limit_args smb (fst l) qty (snd l))
            (map (Pair OrderSide_BUY) bl @ map (Pair OrderSide_SELL) sl)\<rparr>)"
    by (simp add: pl) (simp add: m1_def g0_def)
  finally show ?thesis
    by (simp add: Let_def gid_def bl_def sl_def g0_def)
qed


lemma level_map_sorted:
  "0 \<le> st \<Longrightarrow> sorted (map (\<lambda>i. lower + real i * st) [0..<n])"
  by (simp add: sorted_wrt_map sorted_wrt_iff_nth_less mult_right_mono)

lemma grid_level_prices_sorted:
  assumes "lower \<le> upper"
  shows "sorted (grid_level_prices lower upper levels)"
proof (cases "2 \<le> levels")
  case True
  then have st: "0 \<le> (upper - lower) / real_of_int (levels - 1)"
    using assms by simp
  show ?thesis
    unfolding grid_level_prices_def by (rule level_map_sorted [OF st])
next
  case False
  then have "nat levels \<le> 1" by simp
  then have "length (grid_level_prices lower upper levels) \<le> 1"
    by (simp add: grid_level_prices_def)
  then show ?thesis
    by (cases "grid_level_prices lower upper levels") simp_all
qed

lemma start_grid_strategy_Inr:
  assumes "start_grid_strategy ex tk m w smb lower upper levels qty = Inr (grid_id, m', w')"
  shows "levels \<noteq> 1"
    and "\<exists>g. grid_orders m' grid_id = Some g \<and>
           grid_symbol g = smb \<and> quantity_per_level g = qty \<and>
           buy_levels g =
             filter (\<lambda>p. p < get_current_price tk smb) (grid_level_prices lower upper levels) \<and>
           sell_levels g =
             filter (\<lambda>p. get_current_price tk smb \<le> p) (grid_level_prices lower upper levels) \<and>
           grid_active_orders g =
             filter (\<lambda>r. status r \<noteq> ''FAILED'')
               (grid_results ex w smb qty
                  (map (Pair OrderSide_BUY) (buy_levels g) @
                   map (Pair OrderSide_SELL) (sell_levels g))) \<and>
           submitted w' = submitted w @
             map (\<lambda>l. limit_args smb (fst l) qty (snd l))
               (map (Pair OrderSide_BUY) (buy_levels g) @
                map (Pair OrderSide_SELL) (sell_levels g))"
proof -
  show l: "levels \<noteq> 1"
    using assms start_grid_strategy_one_level by auto
  show "\<exists>g. grid_orders m' grid_id = Some g \<and>
           grid_symbol g = smb \<and> quantity_per_level g = qty \<and>
           buy_levels g =
             filter (\<lambda>p. p < get_current_price tk smb) (grid_level_prices lower upper levels) \<and>
           sell_levels g =
             filter (\<lambda>p. get_current_price tk smb \<le> p) (grid_level_prices lower upper levels) \<and>
           grid_active_orders g =
             filter (\<lambda>r. status r \<noteq> ''FAILED'')
               (grid_results ex w smb qty
                  (map (Pair OrderSide_BUY) (buy_levels g) @
                   map (Pair OrderSide_SELL) (sell_levels g))) \<and>
           submitted w' = submitted w @
             map (\<lambda>l. limit_args smb (fst l) qty (snd l))
               (map (Pair OrderSide_BUY) (buy_levels g) @
                map (Pair OrderSide_SELL) (sell_levels g))"
    using assms
    unfolding start_grid_strategy_result [OF l] Let_def
    by auto
qed

lemma grid_levels_5:
  "grid_level_prices 1800 2200 5 = [1800, 1900, 2000, 2100, 2200]"
  by (simp add: grid_level_prices_def eval_nat_numeral upt_rec)

text \<open>
  Claim C5. When \<^verbatim>\<open>start_grid_strategy\<close> returns, the strategy it stored has as buy levels
  exactly the level prices strictly below the price read once from the price feed, and as
  sell levels exactly those at or above it, each in level order. The two have no price in
  common, together they hold every level price, and their lengths add up to the number of
  levels. For lower 1800, upper 2200, five levels and a market price of 2000 the levels
  are 1800, 1900, 2000, 2100, 2200, the buys 1800 and 1900, the sells 2000, 2100, 2200.
  Prices are exact reals.
\<close>

theorem grid_levels_classified:
  "(start_grid_strategy ex tk m w smb lower upper levels qty = Inr (grid_id, m', w') \<longrightarrow>
      (case grid_orders m' grid_id of
         None \<Rightarrow> False
       | Some g \<Rightarrow>
           buy_levels g =
             filter (\<lambda>p. p < get_current_price tk smb) (grid_level_prices lower upper levels) \<and>
           sell_levels g =
             filter (\<lambda>p. get_current_price tk smb \<le> p) (grid_level_prices lower upper levels) \<and>
           set (buy_levels g) \<inter> set (sell_levels g) = {} \<and>
           set (buy_levels g) \<union> set (sell_levels g) =
             set (grid_level_prices lower upper levels) \<and>
           length (buy_levels g) + length (sell_levels g) =
             length (grid_level_prices lower upper levels))) \<and>
   grid_level_prices 1800 2200 5 = [1800, 1900, 2000, 2100, 2200] \<and>
   (case start_grid_strategy ex ticker_2000 m0 w0 ''ETHUSDT'' 1800 2200 5 0.1 of
      Inl e \<Rightarrow> False
    | Inr (grid_id, m', w') \<Rightarrow>
        (case grid_orders m' grid_id of
           None \<Rightarrow> False
         | Some g \<Rightarrow> buy_levels g = [1800, 1900] \<and> sell_levels g = [2000, 2100, 2200]))"
proof (intro conjI impI)
  assume a: "start_grid_strategy ex tk m w smb lower upper levels qty = Inr (grid_id, m', w')"
  define c where "c = get_current_price tk smb"
  define lv where "lv = grid_level_prices lower upper levels"
  from start_grid_strategy_Inr(2) [OF a] obtain g where g:
    "grid_orders m' grid_id = Some g"
    "buy_levels g = filter (\<lambda>p. p < c) lv"
    "sell_levels g = filter (\<lambda>p. c \<le> p) lv"
    unfolding c_def lv_def by blast
  have d: "set (filter (\<lambda>p. p < c) lv) \<inter> set (filter (\<lambda>p. c \<le> p) lv) = {}"
    by auto
  have u: "set (filter (\<lambda>p. p < c) lv) \<union> set (filter (\<lambda>p. c \<le> p) lv) = set lv"
    by auto
  have "(\<lambda>p. c \<le> p) = (\<lambda>p. \<not> p < c)"
    by (simp add: not_less)
  then have n: "length (filter (\<lambda>p. p < c) lv) + length (filter (\<lambda>p. c \<le> p) lv) = length lv"
    by (simp add: sum_length_filter_compl)
  show "case grid_orders m' grid_id of
         None \<Rightarrow> False
       | Some g \<Rightarrow>
           buy_levels g =
             filter (\<lambda>p. p < get_current_price tk smb) (grid_level_prices lower upper levels) \<and>
           sell_levels g =
             filter (\<lambda>p. get_current_price tk smb \<le> p) (grid_level_prices lower upper levels) \<and>
           set (buy_levels g) \<inter> set (sell_levels g) = {} \<and>
           set (buy_levels g) \<union> set (sell_levels g) =
             set (grid_level_prices lower upper levels) \<and>
           length (buy_levels g) + length (sell_levels g) =
             length (grid_level_prices lower upper levels)"
    unfolding c_def [symmetric] lv_def [symmetric]
    using g d u n by simp
next
  show "grid_level_prices 1800 2200 5 = [1800, 1900, 2000, 2100, 2200]"
    by (rule grid_levels_5)
next
  have p: "get_current_price ticker_2000 ''ETHUSDT'' = 2000"
    by (simp add: get_current_price_def ticker_2000_def)
  show "case start_grid_strategy ex ticker_2000 m0 w0 ''ETHUSDT'' 1800 2200 5 0.1 of
      Inl e \<Rightarrow> False
    | Inr (grid_id, m', w') \<Rightarrow>
        (case grid_orders m' grid_id of
           None \<Rightarrow> False
         | Some g \<Rightarrow> buy_levels g = [1800, 1900] \<and> sell_levels g = [2000, 2100, 2200])"
    by (simp add: start_grid_strategy_result Let_def p grid_levels_5)
qed

theorem grid_levels_classified_witness:
  "(case start_grid_strategy exchange_accepting ticker_2000 m0 w0 ''ETHUSDT'' 1000 3000 3 1 of
      Inl e \<Rightarrow> False
    | Inr (grid_id, m', w') \<Rightarrow>
        (case grid_orders m' grid_id of
           None \<Rightarrow> False
         | Some g \<Rightarrow>
             buy_levels g = [1000] \<and> sell_levels g = [2000, 3000] \<and>
             set (buy_levels g) \<inter> set (sell_levels g) = {} \<and>
             set (buy_levels g) \<union> set (sell_levels g) = {1000, 2000, 3000}))"
proof -
  obtain grid_id m' w' where s:
    "start_grid_strategy exchange_accepting ticker_2000 m0 w0 ''ETHUSDT'' 1000 3000 3 1 =
       Inr (grid_id, m', w')"
    by (simp add: start_grid_strategy_result Let_def)
  have p: "get_current_price ticker_2000 ''ETHUSDT'' = 2000"
    by (simp add: get_current_price_def ticker_2000_def)
  have l: "grid_level_prices 1000 3000 3 = [1000, 2000, 3000]"
    by (simp add: grid_level_prices_def eval_nat_numeral upt_rec)
  show ?thesis
    using grid_levels_classified
      [where ex = exchange_accepting and tk = ticker_2000 and m = m0 and w = w0
         and smb = "''ETHUSDT''" and lower = 1000 and upper = 3000 and levels = 3 and qty = 1
         and grid_id = grid_id and m' = m' and w' = w', THEN conjunct1, THEN mp, OF s]
    by (simp add: s p l split: option.splits) auto
qed

lemma str_int_ids:
  "str_int 1001 = ''1001''" "str_int 1002 = ''1002''" "str_int 1003 = ''1003''"
  "str_int 1004 = ''1004''"
  by (simp_all add: str_int_def str_nat.simps digit_char_def)

lemma price_2000: "get_current_price ticker_2000 smb = 2000"
  by (simp add: get_current_price_def ticker_2000_def)

text \<open>
  Claim C8, as stated, fails. With an exchange that rejects the first order and accepts
  the rest, the five-level grid from 1800 to 2200 at market price 2000 submits all five
  orders, but the \<^verbatim>\<open>FAILED\<close> result of the first level (the buy at 1800) is not in the
  strategy's \<^verbatim>\<open>active_orders\<close>: \<^verbatim>\<open>_place_grid_orders\<close> appends a result only when its
  status is not \<^verbatim>\<open>FAILED\<close>.
\<close>

theorem grid_failed_result_not_recorded:
  "start_grid_strategy exchange_rejecting_first ticker_2000 m0 w0 ''ETHUSDT'' 1800 2200 5 (1/10) =
     Inr (''grid_ETHUSDT_1700000000'',
          m0\<lparr>grid_orders := (grid_orders m0)(''grid_ETHUSDT_1700000000'' \<mapsto>
              \<lparr>grid_symbol = ''ETHUSDT'', lower_price = 1800, upper_price = 2200,
               grid_levels = 5, quantity_per_level = 1/10,
               buy_levels = [1800, 1900], sell_levels = [2000, 2100, 2200],
               grid_active_orders =
                 [\<lparr>order_id = ''1001'', symbol = ''ETHUSDT'', side = ''BUY'',
                   order_type = ''LIMIT'', quantity = 1/10, price = Some 1900,
                   status = ''NEW'', timestamp = 1700000000, error_message = None\<rparr>,
                  \<lparr>order_id = ''1002'', symbol = ''ETHUSDT'', side = ''SELL'',
                   order_type = ''LIMIT'', quantity = 1/10, price = Some 2000,
                   status = ''NEW'', timestamp = 1700000000, error_message = None\<rparr>,
                  \<lparr>order_id = ''1003'', symbol = ''ETHUSDT'', side = ''SELL'',
                   order_type = ''LIMIT'', quantity = 1/10, price = Some 2100,
                   status = ''NEW'', timestamp = 1700000000, error_message = None\<rparr>,
                  \<lparr>order_id = ''1004'', symbol = ''ETHUSDT'', side = ''SELL'',
                   order_type = ''LIMIT'', quantity = 1/10, price = Some 2200,
                   status = ''NEW'', timestamp = 1700000000, error_message = None\<rparr>],
               grid_active = True\<rparr>)\<rparr>,
          w0\<lparr>submitted :=
              [limit_args ''ETHUSDT'' ''BUY'' (1/10) 1800,
               limit_args ''ETHUSDT'' ''BUY'' (1/10) 1900,
               limit_args ''ETHUSDT'' ''SELL'' (1/10) 2000,
               limit_args ''ETHUSDT'' ''SELL'' (1/10) 2100,
               limit_args ''ETHUSDT'' ''SELL'' (1/10) 2200]\<rparr>) \<and>
   fst (place_limit_order exchange_rejecting_first w0 ''ETHUSDT'' ''BUY'' (1/10) 1800) =
     \<lparr>order_id = '''', symbol = ''ETHUSDT'', side = ''BUY'', order_type = ''LIMIT'',
      quantity = 1/10, price = Some 1800, status = ''FAILED'', timestamp = 1700000000,
      error_message = Some ''Margin is insufficient.''\<rparr>"
  by (simp add: start_grid_strategy_result Let_def price_2000 grid_levels_5 str_int_clock
      place_limit_order_def exchange_rejecting_first_def w0_def str_int_ids)


text \<open>
  Claim C8, amended. When \<^verbatim>\<open>start_grid_strategy\<close> returns, one \<^verbatim>\<open>LIMIT\<close> request has been
  submitted for every level, whatever the earlier placements returned: first every buy
  level with side \<^verbatim>\<open>BUY\<close>, then every sell level with side \<^verbatim>\<open>SELL\<close>, each in the order of
  its list, which is ascending when \<open>lower \<le> upper\<close>. The strategy's \<^verbatim>\<open>active_orders\<close> holds,
  in that order, exactly the results whose status is not \<^verbatim>\<open>FAILED\<close>; a failed result is
  not stored.
\<close>

theorem grid_placement_best_effort:
  "start_grid_strategy ex tk m w smb lower upper levels qty = Inr (grid_id, m', w') \<longrightarrow>
   (case grid_orders m' grid_id of
      None \<Rightarrow> False
    | Some g \<Rightarrow>
        (let placed = map (Pair OrderSide_BUY) (buy_levels g) @
                      map (Pair OrderSide_SELL) (sell_levels g);
             results = grid_results ex w smb qty placed
         in submitted w' = submitted w @ map (\<lambda>l. limit_args smb (fst l) qty (snd l)) placed \<and>
            length results = length (buy_levels g) + length (sell_levels g) \<and>
            grid_active_orders g = filter (\<lambda>r. status r \<noteq> ''FAILED'') results \<and>
            (\<forall>r\<in>set (grid_active_orders g). status r \<noteq> ''FAILED'') \<and>
            (lower \<le> upper \<longrightarrow> sorted (buy_levels g) \<and> sorted (sell_levels g))))"
proof
  assume a: "start_grid_strategy ex tk m w smb lower upper levels qty = Inr (grid_id, m', w')"
  from start_grid_strategy_Inr(2) [OF a] obtain g where g:
    "grid_orders m' grid_id = Some g"
    "buy_levels g =
       filter (\<lambda>p. p < get_current_price tk smb) (grid_level_prices lower upper levels)"
    "sell_levels g =
       filter (\<lambda>p. get_current_price tk smb \<le> p) (grid_level_prices lower upper levels)"
    "grid_active_orders g =
       filter (\<lambda>r. status r \<noteq> ''FAILED'')
         (grid_results ex w smb qty
            (map (Pair OrderSide_BUY) (buy_levels g) @
             map (Pair OrderSide_SELL) (sell_levels g)))"
    "submitted w' = submitted w @
       map (\<lambda>l. limit_args smb (fst l) qty (snd l))
         (map (Pair OrderSide_BUY) (buy_levels g) @
          map (Pair OrderSide_SELL) (sell_levels g))"
    by blast
  have srt: "lower \<le> upper \<longrightarrow> sorted (buy_levels g) \<and> sorted (sell_levels g)"
    unfolding g(2) g(3) by (simp add: grid_level_prices_sorted sorted_wrt_filter)
  have ok: "\<forall>r\<in>set (grid_active_orders g). status r \<noteq> ''FAILED''"
    unfolding g(4) by simp
  show "case grid_orders m' grid_id of
      None \<Rightarrow> False
    | Some g \<Rightarrow>
        (let placed = map (Pair OrderSide_BUY) (buy_levels g) @
                      map (Pair OrderSide_SELL) (sell_levels g);
             results = grid_results ex w smb qty placed
         in submitted w' = submitted w @ map (\<lambda>l. limit_args smb (fst l) qty (snd l)) placed \<and>
            length results = length (buy_levels g) + length (sell_levels g) \<and>
            grid_active_orders g = filter (\<lambda>r. status r \<noteq> ''FAILED'') results \<and>
            (\<forall>r\<in>set (grid_active_orders g). status r \<noteq> ''FAILED'') \<and>
            (lower \<le> upper \<longrightarrow> sorted (buy_levels g) \<and> sorted (sell_levels g)))"
    unfolding g(1) option.case Let_def
    using g(4) g(5) ok srt by (simp add: length_grid_results)
qed

theorem grid_placement_best_effort_witness:
  "(case start_grid_strategy exchange_rejecting_first ticker_2000 m0 w0 ''ETHUSDT''
           1800 2200 5 (1/10) of
      Inl e \<Rightarrow> False
    | Inr (grid_id, m', w') \<Rightarrow>
        (case grid_orders m' grid_id of
           None \<Rightarrow> False
         | Some g \<Rightarrow>
             submitted w' =
               [limit_args ''ETHUSDT'' ''BUY'' (1/10) 1800,
                limit_args ''ETHUSDT'' ''BUY'' (1/10) 1900,
                limit_args ''ETHUSDT'' ''SELL'' (1/10) 2000,
                limit_args ''ETHUSDT'' ''SELL'' (1/10) 2100,
                limit_args ''ETHUSDT'' ''SELL'' (1/10) 2200] \<and>
             map price (grid_active_orders g) = [Some 1900, Some 2000, Some 2100, Some 2200] \<and>
             sorted (buy_levels g) \<and> sorted (sell_levels g)))"
proof -
  obtain grid_id m' w' where s:
    "start_grid_strategy exchange_rejecting_first ticker_2000 m0 w0 ''ETHUSDT''
       1800 2200 5 (1/10) = Inr (grid_id, m', w')"
    by (simp add: start_grid_strategy_result Let_def)
  from start_grid_strategy_Inr(2) [OF s] obtain g where g:
    "grid_orders m' grid_id = Some g" "buy_levels g = [1800, 1900]"
    "sell_levels g = [2000, 2100, 2200]"
    by (auto simp add: price_2000 grid_levels_5)
  have w: "submitted w0 = []"
    by (simp add: w0_def)
  have k: "submitted w' =
      [limit_args ''ETHUSDT'' ''BUY'' (1/10) 1800,
       limit_args ''ETHUSDT'' ''BUY'' (1/10) 1900,
       limit_args ''ETHUSDT'' ''SELL'' (1/10) 2000,
       limit_args ''ETHUSDT'' ''SELL'' (1/10) 2100,
       limit_args ''ETHUSDT'' ''SELL'' (1/10) 2200] \<and>
    map price (grid_active_orders g) = [Some 1900, Some 2000, Some 2100, Some 2200]"
    using grid_placement_best_effort
      [where ex = exchange_rejecting_first and tk = ticker_2000 and m = m0 and w = w0
         and smb = "''ETHUSDT''" and lower = 1800 and upper = 2200 and levels = 5
         and qty = "1/10" and grid_id = grid_id and m' = m' and w' = w', THEN mp, OF s]
    by (simp add: g w Let_def place_limit_order_def exchange_rejecting_first_def)
  show ?thesis
    using k by (simp add: s g)
qed

section \<open>Grid level prices in double precision\<close>

lemma round_half_even_of_int [simp]: "round_half_even (of_int n) = n"
  by (simp add: round_half_even_def)

lemma round_half_even_numeral [simp]: "round_half_even (numeral n) = numeral n"
  by (simp add: round_half_even_def)

lemma round_half_even_bounds:
  "\<lfloor>x\<rfloor> \<le> round_half_even x" "round_half_even x \<le> \<lfloor>x\<rfloor> + 1"
  by (simp_all add: round_half_even_def Let_def)

lemma round_half_even_mono:
  assumes "s \<le> t"
  shows "round_half_even s \<le> round_half_even t"
proof (cases "\<lfloor>s\<rfloor> = \<lfloor>t\<rfloor>")
  case True
  then have "s - of_int \<lfloor>s\<rfloor> \<le> t - of_int \<lfloor>t\<rfloor>"
    using assms by simp
  then show ?thesis
    using True by (auto simp add: round_half_even_def Let_def)
next
  case False
  then have "\<lfloor>s\<rfloor> < \<lfloor>t\<rfloor>"
    using floor_mono [OF assms] by simp
  then show ?thesis
    using round_half_even_bounds(2) [of s] round_half_even_bounds(1) [of t] by linarith
qed

lemma round_half_even_nonneg: "0 \<le> x \<Longrightarrow> 0 \<le> round_half_even x"
  using round_half_even_mono [of 0 x] by (simp add: round_half_even_def)

lemma bitlen_mono: "a \<le> b \<Longrightarrow> bitlen a \<le> bitlen b"
  by (simp add: bitlen_def floorlog_mono nat_mono)

lemma quantum_exp_mono: "X \<le> Y \<Longrightarrow> quantum_exp X \<le> quantum_exp Y"
  unfolding quantum_exp_def
  by (intro nat_mono diff_right_mono bitlen_mono floor_mono)

lemma less_power_bitlen: "0 \<le> n \<Longrightarrow> n < 2 ^ nat (bitlen n)"
  using bitlen_bounds [of n] by (cases "n = 0") auto

lemma round_scaled_upper:
  assumes "0 \<le> X"
  shows "round_scaled X \<le> 2 ^ (quantum_exp X + 53)"
proof -
  define k where "k = quantum_exp X"
  have "bitlen \<lfloor>X\<rfloor> \<le> int k + 53"
    unfolding k_def quantum_exp_def by simp
  then have "nat (bitlen \<lfloor>X\<rfloor>) \<le> k + 53"
    by simp
  then have "(2::int) ^ nat (bitlen \<lfloor>X\<rfloor>) \<le> 2 ^ (k + 53)"
    by (intro power_increasing) simp_all
  moreover have "\<lfloor>X\<rfloor> < 2 ^ nat (bitlen \<lfloor>X\<rfloor>)"
    using assms by (intro less_power_bitlen) simp
  ultimately have "\<lfloor>X\<rfloor> < 2 ^ (k + 53)"
    by linarith
  then have "X < of_int (2 ^ (k + 53))"
    by (simp only: floor_less_iff)
  then have "X < 2 ^ k * 2 ^ 53"
    by (simp add: power_add)
  then have "X / 2 ^ k \<le> of_int (2 ^ 53)"
    by (simp add: field_simps)
  then have "round_half_even (X / 2 ^ k) \<le> round_half_even (of_int (2 ^ 53))"
    by (rule round_half_even_mono)
  then have "round_half_even (X / 2 ^ k) \<le> 2 ^ 53"
    by simp
  then have "real_of_int (round_half_even (X / 2 ^ k)) \<le> 2 ^ 53"
    by (metis of_int_le_iff of_int_numeral of_int_power)
  then have "real_of_int (round_half_even (X / 2 ^ k)) * 2 ^ k \<le> 2 ^ 53 * 2 ^ k"
    by (intro mult_right_mono) simp_all
  then show ?thesis
    by (simp add: round_scaled_def k_def [symmetric] power_add mult.commute)
qed

lemma round_scaled_lower:
  assumes "0 < quantum_exp X"
  shows "2 ^ (quantum_exp X + 52) \<le> round_scaled X"
proof -
  define k where "k = quantum_exp X"
  have b: "bitlen \<lfloor>X\<rfloor> = int k + 53"
    using assms unfolding k_def quantum_exp_def by simp
  then have p: "0 < \<lfloor>X\<rfloor>"
    using bitlen_eq_zero_iff [of "\<lfloor>X\<rfloor>"] by linarith
  have "nat (bitlen \<lfloor>X\<rfloor> - 1) = k + 52"
    using b by simp
  then have "(2::int) ^ (k + 52) \<le> \<lfloor>X\<rfloor>"
    using bitlen_bounds [OF p] by simp
  then have "of_int (2 ^ (k + 52)) \<le> X"
    by (simp only: le_floor_iff)
  then have "2 ^ k * 2 ^ 52 \<le> X"
    by (simp add: power_add)
  then have "of_int (2 ^ 52) \<le> X / 2 ^ k"
    by (simp add: field_simps)
  then have "round_half_even (of_int (2 ^ 52)) \<le> round_half_even (X / 2 ^ k)"
    by (rule round_half_even_mono)
  then have "2 ^ 52 \<le> round_half_even (X / 2 ^ k)"
    by simp
  then have "2 ^ 52 \<le> real_of_int (round_half_even (X / 2 ^ k))"
    by (metis of_int_le_iff of_int_numeral of_int_power)
  then have "2 ^ 52 * 2 ^ k \<le> real_of_int (round_half_even (X / 2 ^ k)) * 2 ^ k"
    by (intro mult_right_mono) simp_all
  then show ?thesis
    by (simp add: round_scaled_def k_def [symmetric] power_add mult.commute)
qed

lemma round_scaled_mono:
  assumes "0 \<le> X" and "X \<le> Y"
  shows "round_scaled X \<le> round_scaled Y"
proof (cases "quantum_exp X = quantum_exp Y")
  case True
  have "X / 2 ^ quantum_exp Y \<le> Y / 2 ^ quantum_exp Y"
    using assms(2) by (simp add: divide_right_mono)
  then have "round_half_even (X / 2 ^ quantum_exp Y) \<le> round_half_even (Y / 2 ^ quantum_exp Y)"
    by (rule round_half_even_mono)
  then show ?thesis
    by (simp add: round_scaled_def True)
next
  case False
  then have lt: "quantum_exp X < quantum_exp Y"
    using quantum_exp_mono [OF assms(2)] by simp
  have "round_scaled X \<le> 2 ^ (quantum_exp X + 53)"
    by (rule round_scaled_upper [OF assms(1)])
  also have "\<dots> \<le> (2::real) ^ (quantum_exp Y + 52)"
    using lt by (intro power_increasing) simp_all
  also have "\<dots> \<le> round_scaled Y"
    using lt by (intro round_scaled_lower) simp
  finally show ?thesis .
qed

lemma round_scaled_nonneg: "0 \<le> X \<Longrightarrow> 0 \<le> round_scaled X"
  by (simp add: round_scaled_def round_half_even_nonneg)

lemma round_scaled_0 [simp]: "round_scaled 0 = 0"
  by (simp add: round_scaled_def round_half_even_def)

lemma fl_0 [simp]: "fl 0 = 0"
  by (simp add: fl_def)

lemma fl_minus: "fl (- x) = - fl x"
  by (simp add: fl_def sgn_minus)

lemma fl_nonneg: "0 \<le> x \<Longrightarrow> 0 \<le> fl x"
  by (simp add: fl_def round_scaled_nonneg sgn_real_def)

lemma fl_mono_nonneg:
  assumes "0 \<le> x" and "x \<le> y"
  shows "fl x \<le> fl y"
proof (cases "x = 0")
  case True
  then show ?thesis using fl_nonneg assms by simp
next
  case False
  then have "0 < x" "0 < y" using assms by simp_all
  moreover have "round_scaled (x * 2 ^ 1074) \<le> round_scaled (y * 2 ^ 1074)"
    using assms by (intro round_scaled_mono) simp_all
  ultimately show ?thesis
    by (simp add: fl_def divide_right_mono)
qed

lemma fl_mono:
  assumes "x \<le> y"
  shows "fl x \<le> fl y"
proof -
  consider "0 \<le> x" | "x < 0" "0 \<le> y" | "y < 0" using assms by linarith
  then show ?thesis
  proof cases
    case 1
    then show ?thesis by (rule fl_mono_nonneg [OF _ assms])
  next
    case 2
    have "0 \<le> fl (- x)" using 2 by (intro fl_nonneg) simp
    then have "fl x \<le> 0" by (simp add: fl_minus)
    also have "0 \<le> fl y" using 2 by (intro fl_nonneg)
    finally show ?thesis .
  next
    case 3
    have "fl (- y) \<le> fl (- x)"
      using 3 assms by (intro fl_mono_nonneg) simp_all
    then show ?thesis by (simp add: fl_minus)
  qed
qed


lemma quantum_exp_eq:
  assumes "2 ^ (b + 52) \<le> X" and "X < 2 ^ (b + 53)"
  shows "quantum_exp X = b"
proof -
  define n where "n = \<lfloor>X\<rfloor>"
  have lo: "(2::int) ^ (b + 52) \<le> n"
  proof -
    have "of_int (2 ^ (b + 52)) \<le> X" using assms(1) by simp
    then show ?thesis unfolding n_def by (simp only: le_floor_iff)
  qed
  have hi: "n < 2 ^ (b + 53)"
  proof -
    have "X < of_int (2 ^ (b + 53))" using assms(2) by simp
    then show ?thesis unfolding n_def by (simp only: floor_less_iff)
  qed
  have p: "0 < n"
    using lo by (smt (verit) zero_less_power)
  note bb = bitlen_bounds [OF p]
  have "(2::int) ^ nat (bitlen n - 1) < 2 ^ (b + 53)"
    using bb hi by linarith
  then have u: "nat (bitlen n - 1) < b + 53"
    by (simp add: power_strict_increasing_iff)
  have "(2::int) ^ (b + 52) < 2 ^ nat (bitlen n)"
    using bb lo by linarith
  then have l: "b + 52 < nat (bitlen n)"
    by (simp add: power_strict_increasing_iff)
  from u l have "bitlen n = int b + 53"
    by linarith
  then show ?thesis
    by (simp add: quantum_exp_def n_def [symmetric])
qed

lemma fl_normal:
  assumes "2 powi e \<le> x" and "x < 2 powi (e + 1)" and "- 1022 \<le> e"
  shows "fl x = of_int (round_half_even (x * 2 powi (52 - e))) * 2 powi (e - 52)"
proof -
  define b where "b = nat (e + 1022)"
  define S :: real where "S = 2 ^ 1074"
  have S: "0 < S"
    by (simp add: S_def)
  have e: "e = int b - 1022"
    using assms(3) by (simp add: b_def)
  have x: "0 < x"
    using assms(1) by (smt (verit) zero_less_power_int)
  have p1: "(2::real) ^ (b + 52) = 2 powi e * S"
    unfolding e S_def by (simp add: power_int_diff power_add)
  have p2: "(2::real) ^ (b + 53) = 2 powi (e + 1) * S"
    unfolding e S_def by (simp add: power_int_diff power_int_add power_add)
  have q: "quantum_exp (x * S) = b"
  proof (rule quantum_exp_eq)
    show "2 ^ (b + 52) \<le> x * S"
      unfolding p1 using assms(1) S by simp
    show "x * S < 2 ^ (b + 53)"
      unfolding p2 using assms(2) S by simp
  qed
  have s1: "x * S / 2 ^ b = x * 2 powi (52 - e)"
    unfolding e S_def by (simp add: power_int_diff power_int_add power_add field_simps)
  have s2: "(2::real) ^ b / S = 2 powi (e - 52)"
    unfolding e S_def by (simp add: power_int_diff power_int_add power_add field_simps)
  have "fl x = sgn x * round_scaled (\<bar>x\<bar> * S) / S"
    by (simp only: fl_def S_def)
  also have "\<dots> = round_scaled (x * S) / S"
    using x by simp
  also have "\<dots> = of_int (round_half_even (x * S / 2 ^ b)) * (2 ^ b / S)"
    by (simp add: round_scaled_def q)
  finally show ?thesis
    by (simp only: s1 s2)
qed





lemma price_step_double_nonneg:
  assumes "lower \<le> upper" and "1 \<le> levels"
  shows "0 \<le> price_step_double lower upper levels"
  unfolding price_step_double_def
  using assms by (intro fl_nonneg divide_nonneg_nonneg) simp_all

lemma level_price_double_mono:
  assumes "0 \<le> price_step" and "i \<le> j"
  shows "level_price_double lower price_step i \<le> level_price_double lower price_step j"
proof -
  have "fl (real i) \<le> fl (real j)"
    using assms(2) by (intro fl_mono) simp
  then have "fl (real i) * price_step \<le> fl (real j) * price_step"
    using assms(1) by (rule mult_right_mono)
  then have "fl (fl (real i) * price_step) \<le> fl (fl (real j) * price_step)"
    by (rule fl_mono)
  then show ?thesis
    unfolding level_price_double_def by (intro fl_mono) simp
qed

lemma level_price_double_0:
  "fl lower = lower \<Longrightarrow> level_price_double lower price_step 0 = lower"
  by (simp add: level_price_double_def)

lemma grid_level_prices_double_ge_lower:
  assumes "lower \<le> upper" and "fl lower = lower"
  shows "\<forall>p\<in>set (grid_level_prices_double lower upper levels). lower \<le> p"
proof (cases "1 \<le> levels")
  case True
  define st where "st = price_step_double lower upper levels"
  have st: "0 \<le> st"
    unfolding st_def by (rule price_step_double_nonneg [OF assms(1) True])
  have "lower \<le> level_price_double lower st i" for i
    using level_price_double_mono [OF st, of 0 i lower] level_price_double_0 [OF assms(2)]
    by simp
  then show ?thesis
    by (auto simp add: grid_level_prices_double_def st_def [symmetric])
next
  case False
  then have "nat levels = 0" by simp
  then show ?thesis
    by (simp add: grid_level_prices_double_def)
qed

lemma fl_1800: "fl 1800 = 1800"
  by (subst fl_normal [where e = 10]) (simp_all add: round_half_even_def)




section \<open>A grid started under a failed price query\<close>

lemma grid_level_prices_ge_lower:
  assumes "lower \<le> upper"
  shows "\<forall>p\<in>set (grid_level_prices lower upper levels). lower \<le> p"
proof
  fix p assume "p \<in> set (grid_level_prices lower upper levels)"
  then obtain i where i: "i < nat levels"
    and p: "p = lower + real i * ((upper - lower) / real_of_int (levels - 1))"
    by (auto simp add: grid_level_prices_def)
  show "lower \<le> p"
  proof (cases "2 \<le> levels")
    case True
    then have "0 \<le> (upper - lower) / real_of_int (levels - 1)"
      using assms by simp
    then have "0 \<le> real i * ((upper - lower) / real_of_int (levels - 1))"
      by (intro mult_nonneg_nonneg) simp_all
    then show ?thesis
      unfolding p by simp
  next
    case False
    with i have "i = 0" by simp
    then show ?thesis
      unfolding p by simp
  qed
qed

text \<open>
  Claim C10. A failed price query makes \<^verbatim>\<open>get_current_price\<close> return 0 instead of raising.
  For a grid strategy, that is with \<open>lower \<le> upper\<close>, started under it with \<open>lower > 0\<close>:
  the step is not negative, so every level price is at least \<open>lower\<close> and hence above the
  observed price 0; the buy levels are empty and the sell levels are all the levels. The
  same bound holds for the level prices generated in double arithmetic when \<open>lower\<close> is a
  double: none of them is below the observed price, so none is a buy level.
\<close>

theorem grid_failed_price_query_all_sell:
  "tk smb = Ticker_Raises msg \<longrightarrow>
   get_current_price tk smb = 0 \<and>
   (0 < lower \<and> lower \<le> upper \<and>
    start_grid_strategy ex tk m w smb lower upper levels qty = Inr (grid_id, m', w') \<longrightarrow>
    (case grid_orders m' grid_id of
       None \<Rightarrow> False
     | Some g \<Rightarrow>
         buy_levels g = [] \<and>
         sell_levels g = grid_level_prices lower upper levels \<and>
         (\<forall>p\<in>set (grid_level_prices lower upper levels).
            lower \<le> p \<and> get_current_price tk smb \<le> p)) \<and>
    (fl lower = lower \<longrightarrow>
       filter (\<lambda>p. p < get_current_price tk smb)
         (grid_level_prices_double lower upper levels) = [] \<and>
       (\<forall>p\<in>set (grid_level_prices_double lower upper levels).
          lower \<le> p \<and> get_current_price tk smb \<le> p)))"
proof (intro impI conjI)
  assume t: "tk smb = Ticker_Raises msg"
  then show z: "get_current_price tk smb = 0"
    by (simp add: get_current_price_def)
  assume a: "0 < lower \<and> lower \<le> upper \<and>
    start_grid_strategy ex tk m w smb lower upper levels qty = Inr (grid_id, m', w')"
  then have s: "start_grid_strategy ex tk m w smb lower upper levels qty = Inr (grid_id, m', w')"
    and b: "0 < lower" "lower \<le> upper"
    by simp_all
  have ge: "\<forall>p\<in>set (grid_level_prices lower upper levels). lower \<le> p"
    by (rule grid_level_prices_ge_lower [OF b(2)])
  then have nn: "\<forall>p\<in>set (grid_level_prices lower upper levels). 0 \<le> p"
    using b(1) by force
  from start_grid_strategy_Inr(2) [OF s] obtain g where g:
    "grid_orders m' grid_id = Some g"
    "buy_levels g = filter (\<lambda>p. p < 0) (grid_level_prices lower upper levels)"
    "sell_levels g = filter (\<lambda>p. 0 \<le> p) (grid_level_prices lower upper levels)"
    unfolding z by blast
  have "buy_levels g = []"
    unfolding g(2) using nn by (simp add: filter_empty_conv not_less)
  moreover have "sell_levels g = grid_level_prices lower upper levels"
    unfolding g(3) using nn by (simp add: filter_id_conv)
  ultimately show "case grid_orders m' grid_id of
       None \<Rightarrow> False
     | Some g \<Rightarrow>
         buy_levels g = [] \<and>
         sell_levels g = grid_level_prices lower upper levels \<and>
         (\<forall>p\<in>set (grid_level_prices lower upper levels).
            lower \<le> p \<and> get_current_price tk smb \<le> p)"
    using nn ge by (simp add: g(1) z)
  assume d: "fl lower = lower"
  have dge: "\<forall>p\<in>set (grid_level_prices_double lower upper levels). lower \<le> p"
    by (rule grid_level_prices_double_ge_lower [OF b(2) d])
  then show "\<forall>p\<in>set (grid_level_prices_double lower upper levels).
      lower \<le> p \<and> get_current_price tk smb \<le> p"
    using b(1) z by force
  then show "filter (\<lambda>p. p < get_current_price tk smb)
      (grid_level_prices_double lower upper levels) = []"
    by (simp add: filter_empty_conv not_less)
qed

theorem grid_failed_price_query_all_sell_witness:
  "get_current_price ticker_down ''ETHUSDT'' = 0 \<and>
   (case start_grid_strategy exchange_accepting ticker_down m0 w0 ''ETHUSDT'' 1800 2200 5 (1/10) of
      Inl e \<Rightarrow> False
    | Inr (grid_id, m', w') \<Rightarrow>
        (case grid_orders m' grid_id of
           None \<Rightarrow> False
         | Some g \<Rightarrow>
             buy_levels g = [] \<and> sell_levels g = [1800, 1900, 2000, 2100, 2200])) \<and>
   fl 1800 = 1800 \<and>
   filter (\<lambda>p. p < get_current_price ticker_down ''ETHUSDT'')
     (grid_level_prices_double 1800 2200 5) = []"
proof -
  obtain grid_id m' w' where s:
    "start_grid_strategy exchange_accepting ticker_down m0 w0 ''ETHUSDT'' 1800 2200 5 (1/10) =
       Inr (grid_id, m', w')"
    by (simp add: start_grid_strategy_result Let_def)
  have t: "ticker_down ''ETHUSDT'' = Ticker_Raises ''Read timed out.''"
    by (simp add: ticker_down_def)
  have h: "(0::real) < 1800 \<and> (1800::real) \<le> 2200 \<and>
    start_grid_strategy exchange_accepting ticker_down m0 w0 ''ETHUSDT'' 1800 2200 5 (1/10) =
      Inr (grid_id, m', w')"
    using s by simp
  note r = grid_failed_price_query_all_sell
    [where ex = exchange_accepting and tk = ticker_down and m = m0 and w = w0
       and smb = "''ETHUSDT''" and lower = 1800 and upper = 2200 and levels = 5
       and qty = "1/10" and grid_id = grid_id and m' = m' and w' = w'
       and msg = "''Read timed out.''", THEN mp, OF t]
  note k = r [THEN conjunct2, THEN mp, OF h]
  show ?thesis
    using r [THEN conjunct1] k [THEN conjunct1]
      k [THEN conjunct2, THEN mp, OF fl_1800, THEN conjunct1] fl_1800
    by (simp add: s grid_levels_5 split: option.splits)
qed

end
